theory Spec2Isabelle
  imports Main "HOL-Library.Word"
begin

unbundle bit_operations_syntax

section \<open>The settings store of GlanceThing (src/main/lib/storage.ts)\<close>

text \<open>
  The module keeps one JSON document, \<^verbatim>\<open>storage.json\<close>, in the user-data directory. Every
  operation reads the whole file, and every write rewrites the whole file. Values marked
  secure go through Electron's \<^verbatim>\<open>safeStorage\<close> and are kept as a hex string.

  Boundary of the model.
  \<^item> A JavaScript value that a caller passes or that \<^verbatim>\<open>JSON.parse\<close> builds is a \<open>jsval\<close>:
    \<^verbatim>\<open>undefined\<close>, \<^verbatim>\<open>null\<close>, a boolean, a number (the 64 bits of its IEEE double), a
    string, an array, or a plain object given by its own enumerable members. Symbols,
    big integers, functions, sparse arrays and objects with accessors are not values of
    the model.
  \<^item> An object inherits from \<^verbatim>\<open>Object.prototype\<close>: reading a member that the object does not
    own finds the inherited one, and writing \<^verbatim>\<open>__proto__\<close> calls the inherited setter.
  \<^item> The text of the file is taken as JSON data: an object is the map of its members, a
    number is its token. The file holds the text of a JSON object or text that is not
    JSON. The module itself writes nothing else, and the data model of the store has a
    JSON object on disk at all times.
  \<^item> The file system does not fail, and the asynchronous functions run one after the
    other, as the awaits of the source order them.
\<close>

subsection \<open>Values\<close>

type_synonym byte = "8 word"

type_synonym double = "64 word"

datatype json =
    JNull | JBool bool | JNum string | JStr string
  | JArr "json list" | JObj "string \<Rightarrow> json option"

datatype jsval =
    Undefined | Null | Bool bool | Num double | Str string
  | Arr "jsval list" | Obj "string \<Rightarrow> jsval option"

datatype error = ENOENT | TypeError | DecryptError

text \<open>
  Parameters of the model. Electron's \<^verbatim>\<open>safeStorage\<close>; Node's \<^verbatim>\<open>Buffer.from\<close> on a value
  that is an array or an object; the random strings of \<^verbatim>\<open>utils.js\<close>, by length and by
  the number of the draw; the double that \<^verbatim>\<open>JSON.parse\<close> reads from a number token; and
  the string of a double, as \<^verbatim>\<open>String\<close> and \<^verbatim>\<open>JSON.stringify\<close> print it. \<^verbatim>\<open>decryptString\<close>
  throws on bytes it cannot decrypt (\<open>None\<close>).
\<close>

record platform =
  isEncryptionAvailable :: bool
  encryptString :: "string \<Rightarrow> byte list"
  decryptString :: "byte list \<Rightarrow> string option"
  Buffer_from_object :: "jsval \<Rightarrow> byte list option"
  random :: "nat \<Rightarrow> nat \<Rightarrow> string"
  JSON_number :: "string \<Rightarrow> double"
  Number_toString :: "double \<Rightarrow> string"

text \<open>
  A double is finite when its exponent field is not all ones; it is NaN when the field is
  all ones and the fraction is not zero.
\<close>

definition is_finite :: "double \<Rightarrow> bool" where
  "is_finite x = (x AND 0x7FF0000000000000 \<noteq> 0x7FF0000000000000)"

definition is_NaN :: "double \<Rightarrow> bool" where
  "is_NaN x = (\<not> is_finite x \<and> x AND 0x000FFFFFFFFFFFFF \<noteq> 0)"

text \<open>\<^verbatim>\<open>JSON.parse\<close> on the text of one value.\<close>

primrec JSON_parse_value :: "platform \<Rightarrow> json \<Rightarrow> jsval" where
  "JSON_parse_value P JNull = Null"
| "JSON_parse_value P (JBool b) = Bool b"
| "JSON_parse_value P (JNum t) = Num (JSON_number P t)"
| "JSON_parse_value P (JStr s) = Str s"
| "JSON_parse_value P (JArr xs) = Arr (map (JSON_parse_value P) xs)"
| "JSON_parse_value P (JObj m) = Obj (\<lambda>k. map_option (JSON_parse_value P) (m k))"

text \<open>
  \<^verbatim>\<open>JSON.stringify\<close> on one value: \<^verbatim>\<open>undefined\<close> has no text (\<open>None\<close>), a number that is
  not finite is written \<^verbatim>\<open>null\<close>, an array element without text is written \<^verbatim>\<open>null\<close>, an
  object member without text is left out.
\<close>

primrec JSON_stringify_value :: "platform \<Rightarrow> jsval \<Rightarrow> json option" where
  "JSON_stringify_value P Undefined = None"
| "JSON_stringify_value P Null = Some JNull"
| "JSON_stringify_value P (Bool b) = Some (JBool b)"
| "JSON_stringify_value P (Num x) =
     Some (if is_finite x then JNum (Number_toString P x) else JNull)"
| "JSON_stringify_value P (Str s) = Some (JStr s)"
| "JSON_stringify_value P (Arr xs) =
     Some (JArr (map (\<lambda>r. case r of None \<Rightarrow> JNull | Some j \<Rightarrow> j)
       (map (JSON_stringify_value P) xs)))"
| "JSON_stringify_value P (Obj m) =
     Some (JObj (\<lambda>k. case map_option (JSON_stringify_value P) (m k) of
        None \<Rightarrow> None | Some r \<Rightarrow> r))"

text \<open>
  The truth value of \<^verbatim>\<open>!v\<close> is the negation of this one: the two zeros and NaN are the
  falsy numbers.
\<close>

fun truthy :: "jsval \<Rightarrow> bool" where
  "truthy Undefined = False"
| "truthy Null = False"
| "truthy (Bool b) = b"
| "truthy (Num x) = (x \<noteq> 0 \<and> x \<noteq> 0x8000000000000000 \<and> \<not> is_NaN x)"
| "truthy (Str s) = (s \<noteq> [])"
| "truthy (Arr xs) = True"
| "truthy (Obj m) = True"

fun is_object :: "jsval \<Rightarrow> bool" where
  "is_object (Arr xs) = True"
| "is_object (Obj m) = True"
| "is_object v = False"

text \<open>
  \<^verbatim>\<open>String(value)\<close>. An array joins the strings of its elements with commas, the empty
  string standing for \<^verbatim>\<open>null\<close> and \<^verbatim>\<open>undefined\<close>. A plain object is \<^verbatim>\<open>[object Object]\<close>
  by the inherited \<^verbatim>\<open>toString\<close>; when it owns a member \<^verbatim>\<open>toString\<close>, which is no function,
  the conversion finds no primitive and throws a TypeError.
\<close>

fun js_join :: "jsval list \<Rightarrow> (error + string) list \<Rightarrow> error + string" where
  "js_join (x # xs) (r # rs) =
     (case (if x = Undefined \<or> x = Null then Inr [] else r) of
        Inl e \<Rightarrow> Inl e
      | Inr s \<Rightarrow>
          (if xs = [] then Inr s
           else (case js_join xs rs of Inl e \<Rightarrow> Inl e | Inr t \<Rightarrow> Inr (s @ '','' @ t))))"
| "js_join xs rs = Inr []"

primrec js_String :: "platform \<Rightarrow> jsval \<Rightarrow> error + string" where
  "js_String P Undefined = Inr ''undefined''"
| "js_String P Null = Inr ''null''"
| "js_String P (Bool b) = Inr (if b then ''true'' else ''false'')"
| "js_String P (Num x) = Inr (Number_toString P x)"
| "js_String P (Str s) = Inr s"
| "js_String P (Arr xs) = js_join xs (map (js_String P) xs)"
| "js_String P (Obj m) =
     (if m ''toString'' = None then Inr ''[object Object]'' else Inl TypeError)"

subsection \<open>Members inherited from \<^verbatim>\<open>Object.prototype\<close>\<close>

text \<open>
  \<^verbatim>\<open>Object.prototype\<close> has eleven functions and the accessor \<^verbatim>\<open>__proto__\<close>, whose getter
  returns the prototype of the object: \<^verbatim>\<open>Object.prototype\<close> itself, for an object literal
  and for an object that \<^verbatim>\<open>JSON.parse\<close> built.
\<close>

definition Object_prototype_functions :: "string list" where
  "Object_prototype_functions =
     [''constructor'', ''__defineGetter__'', ''__defineSetter__'', ''hasOwnProperty'',
      ''__lookupGetter__'', ''__lookupSetter__'', ''isPrototypeOf'', ''propertyIsEnumerable'',
      ''toString'', ''valueOf'', ''toLocaleString'']"

datatype builtin = Object_function string | Object_prototype

definition Object_prototype_member :: "string \<Rightarrow> builtin option" where
  "Object_prototype_member key =
     (if key = ''__proto__'' then Some Object_prototype
      else if key \<in> set Object_prototype_functions then Some (Object_function key)
      else None)"

text \<open>
  \<^verbatim>\<open>object[key]\<close>: the own member, else the inherited one, else \<^verbatim>\<open>undefined\<close> (\<open>None\<close>).
\<close>

datatype 'a found = Own 'a | Inherited builtin

definition js_get :: "(string \<Rightarrow> 'a option) \<Rightarrow> string \<Rightarrow> 'a found option" where
  "js_get object key =
     (case object key of
        Some x \<Rightarrow> Some (Own x)
      | None \<Rightarrow> map_option Inherited (Object_prototype_member key))"

text \<open>
  \<^verbatim>\<open>object[key] = value\<close>: an own member is created or replaced. The one exception is the
  key \<^verbatim>\<open>__proto__\<close> on an object that owns no such member: the inherited setter runs,
  which changes at most the prototype of the object and creates no member.
\<close>

definition js_set ::
  "(string \<Rightarrow> jsval option) \<Rightarrow> string \<Rightarrow> jsval \<Rightarrow> (string \<Rightarrow> jsval option)" where
  "js_set object key value =
     (if key = ''__proto__'' \<and> object key = None then object else object(key \<mapsto> value))"

text \<open>
  A call \<^verbatim>\<open>f(value)\<close> of an inherited member, with no receiver. \<^verbatim>\<open>Object.prototype\<close> is no
  function. \<^verbatim>\<open>Object\<close> and \<^verbatim>\<open>toString\<close> return; \<^verbatim>\<open>isPrototypeOf\<close> returns on an argument
  that is no object; every other call converts the missing receiver to an object, which
  throws a TypeError.
\<close>

definition call_builtin :: "builtin \<Rightarrow> jsval \<Rightarrow> error + unit" where
  "call_builtin f value =
     (case f of
        Object_prototype \<Rightarrow> Inl TypeError
      | Object_function name \<Rightarrow>
          if name = ''constructor'' \<or> name = ''toString'' then Inr ()
          else if name = ''isPrototypeOf'' \<and> \<not> is_object value then Inr ()
          else Inl TypeError)"

fun truthy_found :: "jsval found \<Rightarrow> bool" where
  "truthy_found (Own v) = truthy v"
| "truthy_found (Inherited f) = True"

subsection \<open>Hex strings of buffers\<close>

text \<open>\<^verbatim>\<open>buffer.toString('hex')\<close>: two lower-case digits for each byte.\<close>

definition hex_digits :: string where
  "hex_digits = ''0123456789abcdef''"

definition hex_byte :: "byte \<Rightarrow> string" where
  "hex_byte b = [hex_digits ! (unat b div 16), hex_digits ! (unat b mod 16)]"

definition toString_hex :: "byte list \<Rightarrow> string" where
  "toString_hex buf = concat (map hex_byte buf)"

text \<open>
  \<^verbatim>\<open>Buffer.from(s, 'hex')\<close> on a string: pairs of hex digits of either case, up to the
  first pair that is not one; a last single character is dropped.
\<close>

definition hex_value :: "char \<Rightarrow> nat option" where
  "hex_value c =
     (let n = of_char c :: nat in
      if 48 \<le> n \<and> n \<le> 57 then Some (n - 48)
      else if 97 \<le> n \<and> n \<le> 102 then Some (n - 87)
      else if 65 \<le> n \<and> n \<le> 70 then Some (n - 55)
      else None)"

fun fromString_hex :: "string \<Rightarrow> byte list" where
  "fromString_hex (a # b # cs) =
     (case hex_value a of
        None \<Rightarrow> []
      | Some h \<Rightarrow>
          (case hex_value b of
             None \<Rightarrow> []
           | Some l \<Rightarrow> word_of_nat (16 * h + l) # fromString_hex cs))"
| "fromString_hex cs = []"

subsection \<open>The world outside the module\<close>

text \<open>The text of \<^verbatim>\<open>storage.json\<close>: a JSON object, by its members, or no JSON at all.\<close>

datatype file_text = Document "string \<Rightarrow> json option" | Malformed

text \<open>
  What the module does to the outside, in the order it does it. The world is the file
  (\<open>None\<close> when it does not exist), the events so far, and the number of random strings
  drawn so far.
\<close>

datatype event =
    Log string string
  | WriteFile file_text
  | SetLoginItemSettings jsval
  | UpdateTime jsval

record world =
  storage_file :: "file_text option"
  events :: "event list"
  draws :: nat

text \<open>
  Modelled from the spec: \<^verbatim>\<open>log\<close> of \<^verbatim>\<open>utils.js\<close>, which is not among the sources. It
  emits a message under a scope and does nothing else.
\<close>

definition log :: "string \<Rightarrow> string \<Rightarrow> world \<Rightarrow> world" where
  "log text scope w = w\<lparr>events := events w @ [Log text scope]\<rparr>"

text \<open>\<^verbatim>\<open>JSON.parse\<close> on the text of an object: the dictionary of its parsed members.\<close>

definition JSON_parse ::
  "platform \<Rightarrow> (string \<Rightarrow> json option) \<Rightarrow> (string \<Rightarrow> jsval option)" where
  "JSON_parse P d = (\<lambda>k. map_option (JSON_parse_value P) (d k))"

text \<open>
  Modelled from the spec: \<^verbatim>\<open>safeParse\<close> of \<^verbatim>\<open>utils.js\<close>, which is not among the sources.
  It parses JSON text and gives a recoverable empty value (\<open>None\<close>, which is falsy) on
  text that is not JSON.
\<close>

definition safeParse :: "platform \<Rightarrow> file_text \<Rightarrow> (string \<Rightarrow> jsval option) option" where
  "safeParse P text =
     (case text of Document d \<Rightarrow> Some (JSON_parse P d) | Malformed \<Rightarrow> None)"

text \<open>
  Modelled from the spec: \<^verbatim>\<open>updateTime\<close> of \<^verbatim>\<open>server.js\<close>, which is not among the
  sources. It reformats the displayed clock; the model records the call and its argument.
\<close>

definition updateTime :: "jsval \<Rightarrow> world \<Rightarrow> world" where
  "updateTime value w = w\<lparr>events := events w @ [UpdateTime value]\<rparr>"

text \<open>\<^verbatim>\<open>JSON.stringify(storage, null, 2)\<close> on the dictionary.\<close>

definition JSON_stringify ::
  "platform \<Rightarrow> (string \<Rightarrow> jsval option) \<Rightarrow> (string \<Rightarrow> json option)" where
  "JSON_stringify P storage = (\<lambda>k. Option.bind (storage k) (JSON_stringify_value P))"

text \<open>
  \<^verbatim>\<open>Buffer.from(value, 'hex')\<close>, which takes a string, an array or an array-like object, and
  throws a TypeError on anything else: on \<^verbatim>\<open>null\<close>, a boolean, a number, a function, and
  on \<^verbatim>\<open>Object.prototype\<close>, which has no length.
\<close>

definition Buffer_from_hex :: "platform \<Rightarrow> jsval found \<Rightarrow> error + byte list" where
  "Buffer_from_hex P value =
     (case value of
        Own (Str s) \<Rightarrow> Inr (fromString_hex s)
      | Own (Arr xs) \<Rightarrow>
          (case Buffer_from_object P (Arr xs) of None \<Rightarrow> Inl TypeError | Some buf \<Rightarrow> Inr buf)
      | Own (Obj m) \<Rightarrow>
          (case Buffer_from_object P (Obj m) of None \<Rightarrow> Inl TypeError | Some buf \<Rightarrow> Inr buf)
      | _ \<Rightarrow> Inl TypeError)"

subsection \<open>The module\<close>

text \<open>
  \<^verbatim>\<open>storageValueHandlers\<close>: the members that the object literal owns. The handler of
  \<^verbatim>\<open>launchOnStartup\<close> passes its argument to \<^verbatim>\<open>app.setLoginItemSettings\<close>.
\<close>

definition storageValueHandlers :: "string \<Rightarrow> (jsval \<Rightarrow> world \<Rightarrow> world) option" where
  "storageValueHandlers key =
     (if key = ''launchOnStartup''
      then Some (\<lambda>value w. w\<lparr>events := events w @ [SetLoginItemSettings value]\<rparr>)
      else if key = ''timeFormat'' then Some updateTime
      else if key = ''dateFormat'' then Some updateTime
      else None)"

text \<open>\<^verbatim>\<open>getStoragePath\<close>: the path is fixed; a missing file is created as \<^verbatim>\<open>{}\<close>.\<close>

definition getStoragePath :: "world \<Rightarrow> world" where
  "getStoragePath w =
     (if storage_file w = None
      then w\<lparr>storage_file := Some (Document Map.empty),
             events := events w @ [WriteFile (Document Map.empty)]\<rparr>
      else w)"

definition getStorage ::
  "platform \<Rightarrow> world \<Rightarrow> (error + (string \<Rightarrow> jsval option)) \<times> world" where
  "getStorage P w =
     (let w1 = getStoragePath w in
      case storage_file w1 of
        None \<Rightarrow> (Inl ENOENT, w1)
      | Some storage \<Rightarrow>
          (Inr (case safeParse P storage of None \<Rightarrow> Map.empty | Some parsed \<Rightarrow> parsed), w1))"

definition writeStorage :: "platform \<Rightarrow> (string \<Rightarrow> jsval option) \<Rightarrow> world \<Rightarrow> world" where
  "writeStorage P storage w =
     (let w1 = getStoragePath w;
          text = Document (JSON_stringify P storage)
      in w1\<lparr>storage_file := Some text, events := events w1 @ [WriteFile text]\<rparr>)"

definition getStorageValue ::
  "platform \<Rightarrow> string \<Rightarrow> bool \<Rightarrow> world \<Rightarrow> (error + jsval found) \<times> world" where
  "getStorageValue P key secure w =
     (let w1 = log (''Getting value for key: '' @ key) ''Storage'' w in
      case getStorage P w1 of
        (Inl e, w2) \<Rightarrow> (Inl e, w2)
      | (Inr storage, w2) \<Rightarrow>
          (case js_get storage key of
             None \<Rightarrow> (Inr (Own Null), w2)
           | Some (Own Undefined) \<Rightarrow> (Inr (Own Null), w2)
           | Some value \<Rightarrow>
               if secure then
                 if \<not> isEncryptionAvailable P then
                   (Inr value,
                    log ''WARNING: Encryption is not available, returning value as is.''
                      ''Storage'' w2)
                 else
                   (case Buffer_from_hex P value of
                      Inl e \<Rightarrow> (Inl e, w2)
                    | Inr buf \<Rightarrow>
                        (case decryptString P buf of
                           None \<Rightarrow> (Inl DecryptError, w2)
                         | Some s \<Rightarrow> (Inr (Own (Str s)), w2)))
               else (Inr value, w2)))"

text \<open>
  The source assigns the encoded string to its own parameter \<^verbatim>\<open>value\<close>. Here \<open>value0\<close> is
  the argument as the caller passed it and \<open>value\<close> is the variable after that assignment:
  the one that is stored, and the one that the handler is called with. \<^verbatim>\<open>String(value)\<close>
  can throw, before anything is read or written. The handler is whatever
  \<^verbatim>\<open>storageValueHandlers[key]\<close> finds, an inherited member too.
\<close>

definition setStorageValue ::
  "platform \<Rightarrow> string \<Rightarrow> jsval \<Rightarrow> bool \<Rightarrow> world \<Rightarrow> (error + unit) \<times> world" where
  "setStorageValue P key value0 secure w =
     (let w1 = log (''Setting value for key: '' @ key) ''Storage'' w in
      case (if secure then
              if \<not> isEncryptionAvailable P then
                Inr (value0,
                     log ''WARNING: Encryption is not available, storing value as is.''
                       ''Storage'' w1)
              else
                (case js_String P value0 of
                   Inl e \<Rightarrow> Inl (e, w1)
                 | Inr s \<Rightarrow> Inr (Str (toString_hex (encryptString P s)), w1))
            else Inr (value0, w1)) of
        Inl (e, w2) \<Rightarrow> (Inl e, w2)
      | Inr (value, w2) \<Rightarrow>
          (case getStorage P w2 of
             (Inl e, w3) \<Rightarrow> (Inl e, w3)
           | (Inr storage, w3) \<Rightarrow>
               (let w4 = writeStorage P (js_set storage key value) w3 in
                case js_get storageValueHandlers key of
                  None \<Rightarrow> (Inr (), w4)
                | Some (Own handler) \<Rightarrow>
                    (Inr (),
                     handler value (log (''Running handler for key: '' @ key) ''Storage'' w4))
                | Some (Inherited f) \<Rightarrow>
                    (call_builtin f value,
                     log (''Running handler for key: '' @ key) ''Storage'' w4))))"

definition getSocketPassword :: "platform \<Rightarrow> world \<Rightarrow> (error + jsval found) \<times> world" where
  "getSocketPassword P w =
     (case getStorageValue P ''socketPassword'' True w of
        (Inl e, w1) \<Rightarrow> (Inl e, w1)
      | (Inr socketPassword, w1) \<Rightarrow>
          if \<not> truthy_found socketPassword then
            (let fresh = Str (random P 64 (draws w1));
                 w2 = w1\<lparr>draws := Suc (draws w1)\<rparr>
             in case setStorageValue P ''socketPassword'' fresh True w2 of
                  (Inl e, w3) \<Rightarrow> (Inl e, w3)
                | (Inr u, w3) \<Rightarrow> (Inr (Own fresh), w3))
          else (Inr socketPassword, w1))"

definition getSpotifyDc :: "platform \<Rightarrow> world \<Rightarrow> (error + jsval found) \<times> world" where
  "getSpotifyDc P w = getStorageValue P ''sp_dc'' True w"

definition setSpotifyDc :: "platform \<Rightarrow> string \<Rightarrow> world \<Rightarrow> (error + unit) \<times> world" where
  "setSpotifyDc P dc w = setStorageValue P ''sp_dc'' (Str dc) True w"

section \<open>Observations and contracts used by the statements\<close>

text \<open>
  The members of the document on disk; a missing file and a file without JSON have none.
\<close>

definition document_of :: "world \<Rightarrow> string \<Rightarrow> json option" where
  "document_of w = (case storage_file w of Some (Document d) \<Rightarrow> d | _ \<Rightarrow> Map.empty)"

text \<open>
  What \<^verbatim>\<open>setStorageValue\<close> has in \<^verbatim>\<open>value\<close> when it reaches the read of the document, or the
  error that \<^verbatim>\<open>String\<close> threw before.
\<close>

definition stored_representation :: "platform \<Rightarrow> jsval \<Rightarrow> bool \<Rightarrow> error + jsval" where
  "stored_representation P value0 secure =
     (if secure \<and> isEncryptionAvailable P
      then (case js_String P value0 of
              Inl e \<Rightarrow> Inl e
            | Inr s \<Rightarrow> Inr (Str (toString_hex (encryptString P s))))
      else Inr value0)"

text \<open>
  What \<^verbatim>\<open>getStorageValue\<close> returns, as a function of what \<^verbatim>\<open>storage[key]\<close> found, and the
  world that it leaves.
\<close>

definition read_value :: "platform \<Rightarrow> bool \<Rightarrow> jsval found option \<Rightarrow> error + jsval found" where
  "read_value P secure looked_up =
     (case looked_up of
        None \<Rightarrow> Inr (Own Null)
      | Some (Own Undefined) \<Rightarrow> Inr (Own Null)
      | Some value \<Rightarrow>
          if secure \<and> isEncryptionAvailable P then
            (case Buffer_from_hex P value of
               Inl e \<Rightarrow> Inl e
             | Inr buf \<Rightarrow>
                 (case decryptString P buf of
                    None \<Rightarrow> Inl DecryptError
                  | Some s \<Rightarrow> Inr (Own (Str s))))
          else Inr value)"

definition is_undefined :: "jsval found option \<Rightarrow> bool" where
  "is_undefined looked_up =
     (case looked_up of None \<Rightarrow> True | Some (Own Undefined) \<Rightarrow> True | _ \<Rightarrow> False)"

definition read_world :: "platform \<Rightarrow> string \<Rightarrow> bool \<Rightarrow> world \<Rightarrow> world" where
  "read_world P key secure w =
     (let w2 = getStoragePath (log (''Getting value for key: '' @ key) ''Storage'' w) in
      if \<not> is_undefined (js_get (JSON_parse P (document_of w)) key)
         \<and> secure \<and> \<not> isEncryptionAvailable P
      then log ''WARNING: Encryption is not available, returning value as is.'' ''Storage'' w2
      else w2)"

text \<open>
  The dispatch of \<^verbatim>\<open>setStorageValue\<close> on a key: its result, and its events. A registered
  handler returns; an inherited member is called as a handler and may throw.
\<close>

definition dispatch_result :: "string \<Rightarrow> jsval \<Rightarrow> error + unit" where
  "dispatch_result key value =
     (case js_get storageValueHandlers key of
        Some (Inherited f) \<Rightarrow> call_builtin f value
      | _ \<Rightarrow> Inr ())"

definition dispatch_events :: "string \<Rightarrow> jsval \<Rightarrow> event list" where
  "dispatch_events key value =
     (if key = ''launchOnStartup''
      then [Log (''Running handler for key: '' @ key) ''Storage'', SetLoginItemSettings value]
      else if key = ''timeFormat'' \<or> key = ''dateFormat''
      then [Log (''Running handler for key: '' @ key) ''Storage'', UpdateTime value]
      else if Object_prototype_member key \<noteq> None
      then [Log (''Running handler for key: '' @ key) ''Storage'']
      else [])"

text \<open>
  The events of \<^verbatim>\<open>setStorageValue\<close> before it writes the document, the document that it
  writes, and the world that it leaves.
\<close>

definition write_prelude :: "platform \<Rightarrow> string \<Rightarrow> bool \<Rightarrow> world \<Rightarrow> event list" where
  "write_prelude P key secure w =
     [Log (''Setting value for key: '' @ key) ''Storage'']
     @ (if secure \<and> \<not> isEncryptionAvailable P
        then [Log ''WARNING: Encryption is not available, storing value as is.'' ''Storage'']
        else [])
     @ (if storage_file w = None then [WriteFile (Document Map.empty)] else [])"

definition written_document ::
  "platform \<Rightarrow> string \<Rightarrow> jsval \<Rightarrow> world \<Rightarrow> string \<Rightarrow> json option" where
  "written_document P key value w =
     JSON_stringify P (js_set (JSON_parse P (document_of w)) key value)"

definition write_world :: "platform \<Rightarrow> string \<Rightarrow> jsval \<Rightarrow> bool \<Rightarrow> world \<Rightarrow> world" where
  "write_world P key value secure w =
     (let w1 = log (''Setting value for key: '' @ key) ''Storage'' w;
          w2 = (if secure \<and> \<not> isEncryptionAvailable P
                then log ''WARNING: Encryption is not available, storing value as is.''
                  ''Storage'' w1
                else w1);
          w4 = writeStorage P (js_set (JSON_parse P (document_of w)) key value)
                 (getStoragePath w2)
      in case js_get storageValueHandlers key of
           None \<Rightarrow> w4
         | Some (Own handler) \<Rightarrow>
             handler value (log (''Running handler for key: '' @ key) ''Storage'' w4)
         | Some (Inherited f) \<Rightarrow> log (''Running handler for key: '' @ key) ''Storage'' w4)"

fun is_write :: "event \<Rightarrow> bool" where
  "is_write (WriteFile text) = True"
| "is_write e = False"

text \<open>
  A value is JSON-representable when \<^verbatim>\<open>undefined\<close> occurs nowhere in it and every number in
  it is finite and is the double that its own text reads as (negative zero is not: its
  text is \<^verbatim>\<open>0\<close>).
\<close>

primrec json_representable :: "platform \<Rightarrow> jsval \<Rightarrow> bool" where
  "json_representable P Undefined = False"
| "json_representable P Null = True"
| "json_representable P (Bool b) = True"
| "json_representable P (Num x) = (is_finite x \<and> JSON_number P (Number_toString P x) = x)"
| "json_representable P (Str s) = True"
| "json_representable P (Arr xs) = list_all id (map (json_representable P) xs)"
| "json_representable P (Obj m) =
     (\<forall>k. case map_option (json_representable P) (m k) of None \<Rightarrow> True | Some b \<Rightarrow> b)"

text \<open>
  The contract of the platform: \<^verbatim>\<open>decryptString\<close> inverts \<^verbatim>\<open>encryptString\<close>, and
  \<^verbatim>\<open>random(n)\<close> is a string of \<open>n\<close> characters.
\<close>

definition cipher_roundtrip :: "platform \<Rightarrow> bool" where
  "cipher_roundtrip P = (\<forall>s. decryptString P (encryptString P s) = Some s)"

definition random_length :: "platform \<Rightarrow> bool" where
  "random_length P = (\<forall>len n. length (random P len n) = len)"

text \<open>
  The socket password is provisioned when the secure read of its key gives a truthy
  value; \<open>next_call\<close> is the world that one call of \<^verbatim>\<open>getSocketPassword\<close> leaves.
\<close>

definition provisioned :: "platform \<Rightarrow> jsval found \<Rightarrow> world \<Rightarrow> bool" where
  "provisioned P s w =
     (read_value P True (js_get (JSON_parse P (document_of w)) ''socketPassword'') = Inr s
      \<and> truthy_found s)"

definition next_call :: "platform \<Rightarrow> world \<Rightarrow> world" where
  "next_call P w = snd (getSocketPassword P w)"

text \<open>
  A platform and a world for the closed examples. The cipher puts the three bytes of
  \<^verbatim>\<open>v10\<close> before the bytes of the plaintext: it meets the contract and is easy to follow.
  The number functions are those of JavaScript on the tokens and doubles of the examples:
  the tokens \<^verbatim>\<open>9007199254740992\<close> and \<^verbatim>\<open>9007199254740993\<close> both read as the double
  two to the power 53, which prints as \<^verbatim>\<open>9007199254740992\<close>, and \<^verbatim>\<open>42\<close> reads as the double that prints
  as \<^verbatim>\<open>42\<close>. The world has no file yet.
\<close>

definition demo_platform :: "bool \<Rightarrow> platform" where
  "demo_platform available =
     \<lparr>isEncryptionAvailable = available,
      encryptString = (\<lambda>s. 118 # 49 # 48 # map (\<lambda>c. word_of_nat (of_char c)) s),
      decryptString = (\<lambda>buf. case buf of
          a # b # c # rest \<Rightarrow>
            if a = 118 \<and> b = 49 \<and> c = 48 then Some (map (\<lambda>x. char_of (unat x)) rest) else None
        | _ \<Rightarrow> None),
      Buffer_from_object = (\<lambda>v. None),
      random = (\<lambda>len n. replicate len (hex_digits ! (n mod 16))),
      JSON_number = (\<lambda>t.
        if t = ''9007199254740992'' \<or> t = ''9007199254740993'' then 0x4340000000000000
        else if t = ''42'' then 0x4045000000000000
        else 0),
      Number_toString = (\<lambda>x.
        if x = 0x4340000000000000 then ''9007199254740992''
        else if x = 0x4045000000000000 then ''42''
        else ''0'')\<rparr>"

definition fresh_world :: world where
  "fresh_world = \<lparr>storage_file = None, events = [], draws = 0\<rparr>"

section \<open>Supporting lemmas\<close>

subsection \<open>JSON text and values\<close>

lemma parse_defined: "JSON_parse_value P j \<noteq> Undefined"
  by (cases j) simp_all

lemma stringify_parse_Some: "JSON_stringify_value P (JSON_parse_value P j) \<noteq> None"
  by (cases j) simp_all

text \<open>A JSON-representable value is what \<^verbatim>\<open>JSON.parse\<close> reads from its own JSON text.\<close>

lemma representable_roundtrip:
  "json_representable P v \<Longrightarrow>
   map_option (JSON_parse_value P) (JSON_stringify_value P v) = Some v"
proof (induction v)
  case (Arr xs)
  then have "map (JSON_parse_value P)
      (map (\<lambda>r. case r of None \<Rightarrow> JNull | Some j \<Rightarrow> j) (map (JSON_stringify_value P) xs)) = xs"
  proof (induction xs)
    case Nil
    show ?case by simp
  next
    case (Cons x xs)
    from Cons.prems have "map_option (JSON_parse_value P) (JSON_stringify_value P x) = Some x"
      by simp
    moreover from Cons have "map (JSON_parse_value P)
      (map (\<lambda>r. case r of None \<Rightarrow> JNull | Some j \<Rightarrow> j) (map (JSON_stringify_value P) xs)) = xs"
      by simp
    ultimately show ?case by auto
  qed
  then show ?case by simp
next
  case (Obj m)
  have "map_option (JSON_parse_value P)
      (case map_option (JSON_stringify_value P) (m k) of None \<Rightarrow> None | Some r \<Rightarrow> r) = m k" for k
  proof (cases "m k")
    case None
    then show ?thesis by simp
  next
    case (Some x)
    from Obj.prems have "json_representable P x"
      using Some by (auto dest: spec [of _ k])
    moreover have "m k \<in> range m" by simp
    ultimately have "map_option (JSON_parse_value P) (JSON_stringify_value P x) = Some x"
      using Obj.IH [of "m k" x] Some by simp
    with Some show ?thesis by simp
  qed
  then show ?case by (simp add: fun_eq_iff)
qed simp_all

lemma representable_text:
  assumes "json_representable P v"
  obtains j where "JSON_stringify_value P v = Some j" and "JSON_parse_value P j = v"
  using representable_roundtrip [OF assms] by (cases "JSON_stringify_value P v") auto

subsection \<open>Own and inherited members\<close>

lemma js_get_own: "object key = Some x \<Longrightarrow> js_get object key = Some (Own x)"
  by (simp add: js_get_def)

lemma js_get_parse:
  "js_get (JSON_parse P d) key =
     (case d key of
        Some j \<Rightarrow> Some (Own (JSON_parse_value P j))
      | None \<Rightarrow> map_option Inherited (Object_prototype_member key))"
  by (simp add: js_get_def JSON_parse_def split: option.splits)

lemma proto_inherited [simp]:
  "Object_prototype_member ''__proto__'' = Some Object_prototype"
  "Object_prototype_member ''constructor'' = Some (Object_function ''constructor'')"
  "Object_prototype_member ''toString'' = Some (Object_function ''toString'')"
  "Object_prototype_member ''socketPassword'' = None"
  "Object_prototype_member ''sp_dc'' = None"
  "Object_prototype_member ''timeFormat'' = None"
  "Object_prototype_member ''dateFormat'' = None"
  "Object_prototype_member ''launchOnStartup'' = None"
  "Object_prototype_member ''launchMinimized'' = None"
  by (simp_all add: Object_prototype_member_def Object_prototype_functions_def)

lemma js_get_socketPassword:
  "js_get (JSON_parse P d) ''socketPassword'' =
     (case d ''socketPassword'' of None \<Rightarrow> None | Some j \<Rightarrow> Some (Own (JSON_parse_value P j)))"
  by (simp add: js_get_parse split: option.splits)

lemma storageValueHandlers_inherited:
  "Object_prototype_member key = Some f \<Longrightarrow> storageValueHandlers key = None"
  by (auto simp: Object_prototype_member_def Object_prototype_functions_def
      storageValueHandlers_def split: if_splits)

lemma dispatch_result_proto: "dispatch_result ''__proto__'' v = Inl TypeError"
  by (simp add: dispatch_result_def js_get_def storageValueHandlers_def
      Object_prototype_member_def call_builtin_def)

lemma dispatch_returns_not_proto: "dispatch_result key v = Inr () \<Longrightarrow> key \<noteq> ''__proto__''"
  using dispatch_result_proto [of v] by auto

lemma dispatch_plain_keys [simp]:
  "dispatch_result ''socketPassword'' v = Inr ()"
  "dispatch_result ''sp_dc'' v = Inr ()"
  "dispatch_result ''timeFormat'' v = Inr ()"
  "dispatch_result ''launchMinimized'' v = Inr ()"
  by (simp_all add: dispatch_result_def js_get_def storageValueHandlers_def)

text \<open>The keys on which the dispatch throws.\<close>

lemma dispatch_returns_iff:
  "dispatch_result key v = Inr () \<longleftrightarrow>
     key \<notin> {''__proto__'', ''__defineGetter__'', ''__defineSetter__'', ''hasOwnProperty'',
       ''__lookupGetter__'', ''__lookupSetter__'', ''propertyIsEnumerable'', ''valueOf'',
       ''toLocaleString''}
     \<and> (key = ''isPrototypeOf'' \<longrightarrow> \<not> is_object v)"
  by (auto simp: dispatch_result_def js_get_def storageValueHandlers_def
      Object_prototype_member_def Object_prototype_functions_def call_builtin_def
      split: if_splits)

subsection \<open>Hex strings\<close>

lemma hex_value_digit: "n < 16 \<Longrightarrow> hex_value (hex_digits ! n) = Some n"
proof -
  assume "n < 16"
  then have "n \<in> set [0..<16]" by simp
  then show ?thesis
    by (auto simp add: hex_value_def hex_digits_def upt_rec)
qed

lemma fromString_hex_byte: "fromString_hex (hex_byte b @ cs) = b # fromString_hex cs"
proof -
  have "unat b div 16 < 16" using unsigned_less [of b, where 'a = nat] by simp
  moreover have "unat b mod 16 < 16" by simp
  moreover have "word_of_nat (16 * (unat b div 16) + unat b mod 16) = b" by simp
  ultimately show ?thesis
    by (simp add: hex_byte_def hex_value_digit)
qed

lemma hex_roundtrip: "fromString_hex (toString_hex buf) = buf"
  by (induction buf) (simp_all add: toString_hex_def fromString_hex_byte)

lemma length_toString_hex: "length (toString_hex buf) = 2 * length buf"
  by (induction buf) (simp_all add: toString_hex_def hex_byte_def)

subsection \<open>Reading and writing, in closed form\<close>

lemma document_of_simps [simp]:
  "document_of (w\<lparr>storage_file := None\<rparr>) = Map.empty"
  "document_of (w\<lparr>storage_file := Some (Document d)\<rparr>) = d"
  "document_of (w\<lparr>storage_file := Some Malformed\<rparr>) = Map.empty"
  "document_of (w\<lparr>events := evs\<rparr>) = document_of w"
  "document_of (w\<lparr>draws := n\<rparr>) = document_of w"
  by (simp_all add: document_of_def)

lemma document_of_log [simp]: "document_of (log text scope w) = document_of w"
  by (simp add: log_def)

lemma document_of_getStoragePath [simp]: "document_of (getStoragePath w) = document_of w"
  by (simp add: getStoragePath_def document_of_def)

lemma fresh_document [simp]: "document_of fresh_world = Map.empty"
  by (simp add: fresh_world_def document_of_def)

text \<open>
  \<^verbatim>\<open>getStorage\<close> never fails: \<^verbatim>\<open>getStoragePath\<close> has created the file it reads.
\<close>

lemma getStorage_eq:
  "getStorage P w = (Inr (JSON_parse P (document_of w)), getStoragePath w)"
  by (cases "storage_file w")
    (auto simp: getStorage_def getStoragePath_def safeParse_def document_of_def JSON_parse_def
      split: file_text.splits)

lemma getStorageValue_eq:
  "getStorageValue P key secure w =
     (read_value P secure (js_get (JSON_parse P (document_of w)) key), read_world P key secure w)"
proof (cases "js_get (JSON_parse P (document_of w)) key")
  case None
  then show ?thesis
    by (simp add: getStorageValue_def getStorage_eq read_value_def read_world_def
        is_undefined_def Let_def)
next
  case (Some looked_up)
  show ?thesis
  proof (cases looked_up)
    case (Own v)
    with Some show ?thesis
      by (cases v)
        (simp_all add: getStorageValue_def getStorage_eq read_value_def read_world_def
          is_undefined_def Let_def split: sum.splits option.splits)
  next
    case (Inherited f)
    with Some show ?thesis
      by (simp add: getStorageValue_def getStorage_eq read_value_def read_world_def
          is_undefined_def Let_def split: sum.splits option.splits)
  qed
qed

lemma stored_plain [simp]: "stored_representation P v False = Inr v"
  by (simp add: stored_representation_def)

lemma stored_unavailable [simp]:
  "\<not> isEncryptionAvailable P \<Longrightarrow> stored_representation P v secure = Inr v"
  by (simp add: stored_representation_def)

lemma stored_secure:
  "isEncryptionAvailable P \<Longrightarrow> js_String P v = Inr s \<Longrightarrow>
   stored_representation P v True = Inr (Str (toString_hex (encryptString P s)))"
  by (simp add: stored_representation_def)

lemma stored_secure_throws:
  "isEncryptionAvailable P \<Longrightarrow> js_String P v = Inl e \<Longrightarrow>
   stored_representation P v True = Inl e"
  by (simp add: stored_representation_def)

lemma stored_fresh:
  "stored_representation P (Str s) True =
     Inr (if isEncryptionAvailable P then Str (toString_hex (encryptString P s)) else Str s)"
  by (simp add: stored_representation_def)

lemma setStorageValue_throws:
  assumes "stored_representation P value0 secure = Inl e"
  shows "setStorageValue P key value0 secure w
    = (Inl e, log (''Setting value for key: '' @ key) ''Storage'' w)"
  using assms
  by (simp add: setStorageValue_def stored_representation_def Let_def
      split: if_splits sum.splits)

lemma setStorageValue_eq:
  assumes "stored_representation P value0 secure = Inr rep"
  shows "setStorageValue P key value0 secure w
    = (dispatch_result key rep, write_world P key rep secure w)"
proof (cases "secure \<and> isEncryptionAvailable P")
  case True
  with assms obtain s where "js_String P value0 = Inr s"
    and "rep = Str (toString_hex (encryptString P s))"
    by (auto simp: stored_representation_def split: sum.splits)
  with True show ?thesis
    by (simp add: setStorageValue_def getStorage_eq write_world_def dispatch_result_def Let_def
        split: option.splits found.splits)
next
  case False
  with assms have "rep = value0" by (simp add: stored_representation_def)
  with False show ?thesis
    by (cases secure)
      (simp_all add: setStorageValue_def getStorage_eq write_world_def dispatch_result_def Let_def
        split: option.splits found.splits)
qed

lemma written_document_other:
  "k' \<noteq> key \<Longrightarrow>
   written_document P key v w k' =
     Option.bind (document_of w k') (\<lambda>j. JSON_stringify_value P (JSON_parse_value P j))"
  by (cases "document_of w k'")
    (simp_all add: written_document_def JSON_stringify_def JSON_parse_def js_set_def)

lemma written_document_key:
  "written_document P key v w key =
     (if key = ''__proto__'' \<and> document_of w key = None then None
      else JSON_stringify_value P v)"
  by (cases "document_of w key")
    (auto simp: written_document_def JSON_stringify_def JSON_parse_def js_set_def)

lemma storage_file_write_world:
  "storage_file (write_world P key v secure w) = Some (Document (written_document P key v w))"
  by (cases "js_get storageValueHandlers key")
    (auto simp: write_world_def Let_def writeStorage_def written_document_def log_def
      js_get_def storageValueHandlers_def updateTime_def
      split: if_splits found.splits option.splits)

lemma document_of_write_world:
  "document_of (write_world P key v secure w) = written_document P key v w"
  by (simp add: document_of_def storage_file_write_world)

lemma draws_write_world: "draws (write_world P key v secure w) = draws w"
  by (cases "js_get storageValueHandlers key")
    (auto simp: write_world_def Let_def writeStorage_def log_def getStoragePath_def
      js_get_def storageValueHandlers_def updateTime_def
      split: if_splits found.splits option.splits)

lemma events_write_world:
  "events (write_world P key v secure w) =
     events w @ write_prelude P key secure w
       @ [WriteFile (Document (written_document P key v w))]
       @ dispatch_events key v"
proof -
  have inh: "js_get storageValueHandlers key = Some (Inherited f) \<Longrightarrow>
      key \<noteq> ''launchOnStartup'' \<and> key \<noteq> ''timeFormat'' \<and> key \<noteq> ''dateFormat''
      \<and> Object_prototype_member key \<noteq> None" for f
    by (auto simp: js_get_def storageValueHandlers_def split: option.splits if_splits)
  have none: "js_get storageValueHandlers key = None \<Longrightarrow>
      key \<noteq> ''launchOnStartup'' \<and> key \<noteq> ''timeFormat'' \<and> key \<noteq> ''dateFormat''
      \<and> Object_prototype_member key = None"
    by (auto simp: js_get_def storageValueHandlers_def split: option.splits if_splits)
  have own: "js_get storageValueHandlers key = Some (Own h) \<Longrightarrow>
      storageValueHandlers key = Some h" for h
    by (auto simp: js_get_def split: option.splits)
  show ?thesis
  proof (cases "js_get storageValueHandlers key")
    case None
    with none show ?thesis
      by (cases "storage_file w")
        (simp_all add: write_world_def Let_def writeStorage_def written_document_def log_def
          getStoragePath_def dispatch_events_def write_prelude_def)
  next
    case (Some looked_up)
    show ?thesis
    proof (cases looked_up)
      case (Own h)
      with Some own [of h] show ?thesis
        by (cases "storage_file w")
          (auto simp: write_world_def Let_def writeStorage_def written_document_def log_def
            getStoragePath_def dispatch_events_def write_prelude_def storageValueHandlers_def
            updateTime_def split: if_splits)
    next
      case (Inherited f)
      with Some inh [of f] show ?thesis
        by (cases "storage_file w")
          (simp_all add: write_world_def Let_def writeStorage_def written_document_def log_def
            getStoragePath_def dispatch_events_def write_prelude_def)
    qed
  qed
qed

lemma document_of_read_world: "document_of (read_world P key secure w) = document_of w"
  by (simp add: read_world_def Let_def)

lemma events_read_world:
  "events (read_world P key secure w) =
     events w @ [Log (''Getting value for key: '' @ key) ''Storage'']
       @ (if storage_file w = None then [WriteFile (Document Map.empty)] else [])
       @ (if \<not> is_undefined (js_get (JSON_parse P (document_of w)) key)
             \<and> secure \<and> \<not> isEncryptionAvailable P
          then [Log ''WARNING: Encryption is not available, returning value as is.'' ''Storage'']
          else [])"
  by (simp add: read_world_def Let_def log_def getStoragePath_def)

lemma storage_file_read_world:
  "storage_file (read_world P key secure w) =
     (case storage_file w of None \<Rightarrow> Some (Document Map.empty) | Some text \<Rightarrow> Some text)"
  by (cases "storage_file w") (simp_all add: read_world_def Let_def log_def getStoragePath_def)

lemma draws_read_world: "draws (read_world P key secure w) = draws w"
  by (simp add: read_world_def Let_def log_def getStoragePath_def)

lemma read_value_encrypted:
  assumes "isEncryptionAvailable P" and "cipher_roundtrip P"
  shows "read_value P True (Some (Own (Str (toString_hex (encryptString P s))))) = Inr (Own (Str s))"
  using assms by (simp add: read_value_def Buffer_from_hex_def hex_roundtrip cipher_roundtrip_def)

lemma read_value_plain:
  "v \<noteq> Undefined \<Longrightarrow> \<not> (secure \<and> isEncryptionAvailable P) \<Longrightarrow>
   read_value P secure (Some (Own v)) = Inr (Own v)"
  by (cases v) (auto simp: read_value_def)

lemma write_then_read:
  assumes "stored_representation P v secure = Inr rep"
    and "dispatch_result k rep = Inr ()"
    and "JSON_stringify_value P rep = Some j"
  shows "fst (setStorageValue P k v secure w) = Inr ()
    \<and> document_of (snd (setStorageValue P k v secure w)) k = Some j
    \<and> fst (getStorageValue P k secure' (snd (setStorageValue P k v secure w)))
          = read_value P secure' (Some (Own (JSON_parse_value P j)))"
proof -
  have k: "k \<noteq> ''__proto__''" using assms(2) by (rule dispatch_returns_not_proto)
  have d: "document_of (snd (setStorageValue P k v secure w)) k = Some j"
    using k by (simp add: setStorageValue_eq [OF assms(1)] document_of_write_world
        written_document_key assms(3))
  show ?thesis
    by (simp add: d getStorageValue_eq js_get_parse) (simp add: setStorageValue_eq [OF assms(1)] assms(2))
qed

subsection \<open>The platform of the examples meets the contract\<close>

lemma demo_available [simp]: "isEncryptionAvailable (demo_platform a) = a"
  by (simp add: demo_platform_def)

lemma demo_cipher_roundtrip: "cipher_roundtrip (demo_platform a)"
proof -
  have "char_of (unat (word_of_nat (of_char c) :: byte)) = c" for c :: char
    by (simp add: unat_of_nat)
  then have "map ((\<lambda>x. char_of (unat x)) \<circ> (\<lambda>c. word_of_nat (of_char c) :: byte)) s = s" for s
    by (induction s) simp_all
  then show ?thesis
    by (simp add: cipher_roundtrip_def demo_platform_def)
qed

lemma demo_random_length: "random_length (demo_platform a)"
  by (simp add: random_length_def demo_platform_def)

lemma demo_numbers:
  "JSON_number (demo_platform a) ''9007199254740993'' = 0x4340000000000000"
  "Number_toString (demo_platform a) 0x4340000000000000 = ''9007199254740992''"
  "Number_toString (demo_platform a) 0x4045000000000000 = ''42''"
  by (simp_all add: demo_platform_def)

subsection \<open>The socket password, once provisioned\<close>

lemma getSocketPassword_eq:
  "getSocketPassword P w =
     (case read_value P True (js_get (JSON_parse P (document_of w)) ''socketPassword'') of
        Inl e \<Rightarrow> (Inl e, read_world P ''socketPassword'' True w)
      | Inr socketPassword \<Rightarrow>
          if \<not> truthy_found socketPassword then
            (case stored_representation P (Str (random P 64 (draws w))) True of
               Inl e \<Rightarrow>
                 (Inl e, log ''Setting value for key: socketPassword'' ''Storage''
                    ((read_world P ''socketPassword'' True w)\<lparr>draws := Suc (draws w)\<rparr>))
             | Inr rep \<Rightarrow>
                 (Inr (Own (Str (random P 64 (draws w)))),
                  write_world P ''socketPassword'' rep True
                    ((read_world P ''socketPassword'' True w)\<lparr>draws := Suc (draws w)\<rparr>)))
          else (Inr socketPassword, read_world P ''socketPassword'' True w))"
proof (cases "stored_representation P (Str (random P 64 (draws w))) True")
  case (Inl e)
  then show ?thesis
    by (simp add: getSocketPassword_def getStorageValue_eq setStorageValue_throws [OF Inl]
        Let_def draws_read_world split: sum.splits)
next
  case (Inr rep)
  then show ?thesis
    by (simp add: getSocketPassword_def getStorageValue_eq setStorageValue_eq [OF Inr]
        Let_def draws_read_world split: sum.splits)
qed

lemma provisioned_call:
  assumes "provisioned P s w"
  shows "getSocketPassword P w = (Inr s, read_world P ''socketPassword'' True w)"
  using assms by (simp add: getSocketPassword_eq provisioned_def)

lemma provisioned_read_world:
  "provisioned P s (read_world P key secure w) = provisioned P s w"
  by (simp add: provisioned_def document_of_read_world)

lemma provisioned_next_call:
  assumes "provisioned P s w"
  shows "provisioned P s (next_call P w)"
  using assms by (simp add: next_call_def provisioned_call provisioned_read_world)

lemma provisioned_funpow:
  assumes "provisioned P s w"
  shows "provisioned P s ((next_call P ^^ n) w)"
  using assms by (induction n) (simp_all add: provisioned_next_call)

lemma provisioned_exists:
  assumes "provisioned P s w"
  shows "document_of w ''socketPassword'' \<noteq> None" and "storage_file w \<noteq> None"
proof -
  show *: "document_of w ''socketPassword'' \<noteq> None"
  proof
    assume "document_of w ''socketPassword'' = None"
    with assms show False
      by (auto simp: provisioned_def read_value_def js_get_socketPassword)
  qed
  then show "storage_file w \<noteq> None"
    by (auto simp: document_of_def split: option.splits)
qed

lemma fresh_provisioned:
  assumes "cipher_roundtrip P" and "random_length P"
  shows "provisioned P (Own (Str (random P 64 n)))
           (write_world P ''socketPassword''
              (if isEncryptionAvailable P
               then Str (toString_hex (encryptString P (random P 64 n)))
               else Str (random P 64 n)) True w)"
proof -
  have "length (random P 64 n) = 64" using assms(2) by (simp add: random_length_def)
  then have "random P 64 n \<noteq> []" by auto
  then show ?thesis
    using assms(1)
    by (cases "isEncryptionAvailable P")
      (simp_all add: provisioned_def document_of_write_world written_document_key
        js_get_socketPassword read_value_encrypted read_value_plain)
qed

lemma returned_provisioned:
  assumes "cipher_roundtrip P" and "random_length P"
    and "fst (getSocketPassword P w) = Inr s"
  shows "provisioned P s (next_call P w)"
proof (cases "read_value P True (js_get (JSON_parse P (document_of w)) ''socketPassword'')")
  case (Inl e)
  with assms(3) show ?thesis by (simp add: getSocketPassword_eq)
next
  case (Inr sp)
  show ?thesis
  proof (cases "truthy_found sp")
    case True
    with Inr assms(3) have "provisioned P s w"
      by (simp add: getSocketPassword_eq provisioned_def)
    then show ?thesis by (rule provisioned_next_call)
  next
    case False
    with Inr assms(3) have s: "s = Own (Str (random P 64 (draws w)))"
      by (simp add: getSocketPassword_eq stored_fresh)
    from False Inr show ?thesis
      unfolding s by (simp add: next_call_def getSocketPassword_eq stored_fresh
          fresh_provisioned [OF assms(1,2)])
  qed
qed

subsection \<open>What holds on the keys where no inherited member interferes\<close>

text \<open>
  On a key whose dispatch returns, the secure and the plain round trip hold, and a stored
  \<^verbatim>\<open>null\<close> reads as \<^verbatim>\<open>null\<close>. On a key that \<^verbatim>\<open>Object.prototype\<close> does not define, a key that
  the document lacks reads as \<^verbatim>\<open>null\<close>, also when the file is not JSON. The events of a
  write are its log lines, the one write and the dispatch, in this order.
\<close>

lemma secure_roundtrip_other_keys:
  assumes "isEncryptionAvailable P" and "cipher_roundtrip P"
    and "dispatch_result k (Str (toString_hex (encryptString P s))) = Inr ()"
  shows "fst (setStorageValue P k (Str s) True w) = Inr ()
    \<and> fst (getStorageValue P k True (snd (setStorageValue P k (Str s) True w))) = Inr (Own (Str s))
    \<and> document_of (snd (setStorageValue P k (Str s) True w)) k
        = Some (JStr (toString_hex (encryptString P s)))
    \<and> (encryptString P s \<noteq> [] \<and> length s \<le> length (encryptString P s) \<longrightarrow>
         document_of (snd (setStorageValue P k (Str s) True w)) k \<noteq> Some (JStr s))"
proof -
  have r: "stored_representation P (Str s) True = Inr (Str (toString_hex (encryptString P s)))"
    using assms(1) by (simp add: stored_secure)
  have j: "JSON_stringify_value P (Str (toString_hex (encryptString P s)))
      = Some (JStr (toString_hex (encryptString P s)))" by simp
  note t = write_then_read [OF r assms(3) j, where w = w and secure' = True]
  have "toString_hex (encryptString P s) \<noteq> s"
    if "encryptString P s \<noteq> []" and "length s \<le> length (encryptString P s)"
  proof
    assume "toString_hex (encryptString P s) = s"
    then have "length s = 2 * length (encryptString P s)"
      using length_toString_hex [of "encryptString P s"] by simp
    with that show False by (cases "encryptString P s") simp_all
  qed
  with t show ?thesis
    by (simp add: read_value_encrypted [OF assms(1,2)])
qed

lemma plain_roundtrip_other_keys:
  assumes "json_representable P v" and "dispatch_result k v = Inr ()"
  shows "fst (setStorageValue P k v False w) = Inr ()
    \<and> fst (getStorageValue P k False (snd (setStorageValue P k v False w))) = Inr (Own v)"
proof -
  obtain j where j: "JSON_stringify_value P v = Some j" "JSON_parse_value P j = v"
    using assms(1) by (rule representable_text)
  have "v \<noteq> Undefined" using j(1) by auto
  with write_then_read [OF stored_plain assms(2) j(1), where w = w and secure' = False] j(2)
  show ?thesis
    by (simp add: read_value_plain)
qed

lemma stored_null_other_keys:
  assumes "dispatch_result k Null = Inr ()"
  shows "document_of (snd (setStorageValue P k Null False w)) k = Some JNull
   \<and> fst (getStorageValue P k False (snd (setStorageValue P k Null False w))) = Inr (Own Null)
   \<and> (document_of w' k = None \<and> Object_prototype_member k = None \<longrightarrow>
        fst (getStorageValue P k False w') = Inr (Own Null))"
proof -
  have j: "JSON_stringify_value P Null = Some JNull" by simp
  from write_then_read [OF stored_plain assms j, where w = w and secure' = False]
  show ?thesis
    by (simp add: read_value_plain getStorageValue_eq js_get_parse) (simp add: read_value_def)
qed

lemma absent_is_null_other_keys:
  "(document_of w k = None \<and> Object_prototype_member k = None \<longrightarrow>
      fst (getStorageValue P k secure w) = Inr (Own Null))
   \<and> (document_of w k = Some j \<longrightarrow>
        fst (getStorageValue P k False w) = Inr (Own (JSON_parse_value P j))
        \<and> (j \<noteq> JNull \<longrightarrow> fst (getStorageValue P k False w) \<noteq> Inr (Own Null)))"
proof (intro conjI impI)
  assume "document_of w k = None \<and> Object_prototype_member k = None"
  then show "fst (getStorageValue P k secure w) = Inr (Own Null)"
    by (simp add: getStorageValue_eq js_get_parse read_value_def)
next
  assume d: "document_of w k = Some j"
  then show r: "fst (getStorageValue P k False w) = Inr (Own (JSON_parse_value P j))"
    by (simp add: getStorageValue_eq js_get_parse read_value_plain [OF parse_defined])
  assume "j \<noteq> JNull"
  then have "JSON_parse_value P j \<noteq> Null" by (cases j) simp_all
  then show "fst (getStorageValue P k False w) \<noteq> Inr (Own Null)"
    by (simp add: r)
qed

lemma malformed_file_other_keys:
  assumes "storage_file w = Some Malformed"
  shows "fst (getStorage P w) = Inr Map.empty
    \<and> (Object_prototype_member k = None \<longrightarrow>
         fst (getStorageValue P k secure w) = Inr (Own Null))"
  using assms
  by (simp add: getStorage_eq getStorageValue_eq document_of_def JSON_parse_def js_get_def
      read_value_def)

lemma dispatch_in_order:
  assumes "stored_representation P v secure = Inr rep"
  shows "fst (setStorageValue P key v secure w) = dispatch_result key rep
   \<and> events (snd (setStorageValue P key v secure w)) =
       events w @ write_prelude P key secure w
         @ [WriteFile (Document (written_document P key rep w))]
         @ dispatch_events key rep"
  by (simp add: setStorageValue_eq [OF assms] events_write_world)

lemma inherited_member_is_dispatched:
  "setStorageValue (demo_platform True) ''toString'' (Str ''x'') False fresh_world
   = (Inr (),
      \<lparr>storage_file = Some (Document [''toString'' \<mapsto> JStr ''x'']),
       events =
         [Log ''Setting value for key: toString'' ''Storage'',
          WriteFile (Document Map.empty),
          WriteFile (Document [''toString'' \<mapsto> JStr ''x'']),
          Log ''Running handler for key: toString'' ''Storage''],
       draws = 0\<rparr>)"
  by (simp add: setStorageValue_def Let_def demo_platform_def fresh_world_def log_def
      getStorage_def getStoragePath_def safeParse_def JSON_parse_def writeStorage_def
      JSON_stringify_def js_set_def js_get_def storageValueHandlers_def call_builtin_def
      fun_eq_iff)

section \<open>The claims\<close>

text \<open>
  C1. The secure round trip fails on the key \<^verbatim>\<open>__proto__\<close>. With encryption available,
  \<^verbatim>\<open>setStorageValue('__proto__', 'ab', true)\<close> assigns through the inherited setter, so the
  written document has no such member; the handler lookup finds \<^verbatim>\<open>Object.prototype\<close>,
  which is no function, and the call throws a TypeError. The secure read of the key then
  finds \<^verbatim>\<open>Object.prototype\<close> again and throws in \<^verbatim>\<open>Buffer.from\<close>.
\<close>

theorem secure_write_proto_throws:
  "fst (setStorageValue (demo_platform True) ''__proto__'' (Str ''ab'') True fresh_world)
     = Inl TypeError
   \<and> document_of
       (snd (setStorageValue (demo_platform True) ''__proto__'' (Str ''ab'') True fresh_world))
       ''__proto__'' = None
   \<and> fst (getStorageValue (demo_platform True) ''__proto__'' True
       (snd (setStorageValue (demo_platform True) ''__proto__'' (Str ''ab'') True fresh_world)))
     = Inl TypeError"
proof -
  have r: "stored_representation (demo_platform True) (Str ''ab'') True
      = Inr (Str (toString_hex (encryptString (demo_platform True) ''ab'')))"
    by (simp add: stored_secure)
  show ?thesis
    by (simp add: setStorageValue_eq [OF r] dispatch_result_proto document_of_write_world
        written_document_key getStorageValue_eq js_get_parse read_value_def Buffer_from_hex_def)
qed

text \<open>
  C2. The plain round trip fails on the key \<^verbatim>\<open>__proto__\<close>:
  \<^verbatim>\<open>setStorageValue('__proto__', true)\<close> stores no member and throws a TypeError at the
  dispatch, and \<^verbatim>\<open>getStorageValue('__proto__')\<close> returns \<^verbatim>\<open>Object.prototype\<close>, not \<^verbatim>\<open>true\<close>.
\<close>

theorem plain_write_proto_throws:
  "fst (setStorageValue (demo_platform True) ''__proto__'' (Bool True) False fresh_world)
     = Inl TypeError
   \<and> document_of
       (snd (setStorageValue (demo_platform True) ''__proto__'' (Bool True) False fresh_world))
       ''__proto__'' = None
   \<and> fst (getStorageValue (demo_platform True) ''__proto__'' False
       (snd (setStorageValue (demo_platform True) ''__proto__'' (Bool True) False fresh_world)))
     = Inr (Inherited Object_prototype)"
  by (simp add: setStorageValue_eq [OF stored_plain] dispatch_result_proto
      document_of_write_world written_document_key getStorageValue_eq js_get_parse read_value_def)

text \<open>
  C3. With encryption available, \<^verbatim>\<open>setStorageValue('timeFormat', 'HH:mm', true)\<close> on a
  store without a file returns normally and does this, in this order: it logs, creates
  the file, writes the document with the hex string of the ciphertext under the key, logs
  the dispatch, and calls \<^verbatim>\<open>updateTime\<close> once, with the hex string of the ciphertext and not
  with \<^verbatim>\<open>'HH:mm'\<close>.
\<close>

theorem handler_receives_ciphertext:
  "setStorageValue (demo_platform True) ''timeFormat'' (Str ''HH:mm'') True fresh_world
   = (Inr (),
      \<lparr>storage_file = Some (Document [''timeFormat'' \<mapsto> JStr ''76313048483a6d6d'']),
       events =
         [Log ''Setting value for key: timeFormat'' ''Storage'',
          WriteFile (Document Map.empty),
          WriteFile (Document [''timeFormat'' \<mapsto> JStr ''76313048483a6d6d'']),
          Log ''Running handler for key: timeFormat'' ''Storage'',
          UpdateTime (Str ''76313048483a6d6d'')],
       draws = 0\<rparr>)"
  by (simp add: setStorageValue_def Let_def demo_platform_def fresh_world_def log_def
      getStorage_def getStoragePath_def safeParse_def JSON_parse_def writeStorage_def
      JSON_stringify_def js_set_def js_get_def storageValueHandlers_def updateTime_def
      toString_hex_def hex_byte_def hex_digits_def fun_eq_iff)

text \<open>
  C4. From a store without the key, \<^verbatim>\<open>getSocketPassword\<close> returns the fresh random string.
  Whenever a call returns a value, that value is stored: the document has the key and the
  secure read of the key returns the value. The next call returns the same value, leaves
  the file as it is and writes nothing, and so does every later call. The platform is
  taken under its contract: decryption inverts encryption, and \<^verbatim>\<open>random(64)\<close> has 64
  characters.
\<close>

theorem socket_password_idempotent:
  assumes "cipher_roundtrip P" and "random_length P"
  shows "(document_of w ''socketPassword'' = None \<longrightarrow>
           fst (getSocketPassword P w) = Inr (Own (Str (random P 64 (draws w)))))
    \<and> (fst (getSocketPassword P w) = Inr s \<longrightarrow>
         document_of (next_call P w) ''socketPassword'' \<noteq> None
         \<and> fst (getStorageValue P ''socketPassword'' True (next_call P w)) = Inr s
         \<and> fst (getSocketPassword P (next_call P w)) = Inr s
         \<and> storage_file (next_call P (next_call P w)) = storage_file (next_call P w)
         \<and> filter is_write (events (next_call P (next_call P w)))
             = filter is_write (events (next_call P w))
         \<and> (\<forall>n. fst (getSocketPassword P ((next_call P ^^ n) (next_call P w))) = Inr s))"
proof (intro conjI impI allI)
  assume "document_of w ''socketPassword'' = None"
  then show "fst (getSocketPassword P w) = Inr (Own (Str (random P 64 (draws w))))"
    by (simp add: getSocketPassword_eq js_get_socketPassword read_value_def stored_fresh)
next
  assume "fst (getSocketPassword P w) = Inr s"
  then have p: "provisioned P s (next_call P w)"
    by (rule returned_provisioned [OF assms])
  show "document_of (next_call P w) ''socketPassword'' \<noteq> None"
    by (rule provisioned_exists [OF p])
  show "fst (getStorageValue P ''socketPassword'' True (next_call P w)) = Inr s"
    using p by (simp add: getStorageValue_eq provisioned_def)
  show "fst (getSocketPassword P (next_call P w)) = Inr s"
    by (simp add: provisioned_call [OF p])
  have ex: "storage_file (next_call P w) \<noteq> None"
    by (rule provisioned_exists [OF p])
  have nx: "next_call P (next_call P w) = read_world P ''socketPassword'' True (next_call P w)"
    by (simp add: next_call_def [of P "next_call P w"] provisioned_call [OF p])
  show "storage_file (next_call P (next_call P w)) = storage_file (next_call P w)"
    using ex by (auto simp: nx storage_file_read_world)
  show "filter is_write (events (next_call P (next_call P w)))
          = filter is_write (events (next_call P w))"
    using ex by (simp add: nx events_read_world)
  fix n
  show "fst (getSocketPassword P ((next_call P ^^ n) (next_call P w))) = Inr s"
    by (simp add: provisioned_call [OF provisioned_funpow [OF p]])
qed

theorem socket_password_idempotent_witness:
  "fst (getSocketPassword (demo_platform True) fresh_world)
     = Inr (Own (Str (replicate 64 CHR ''0'')))
   \<and> fst (getStorageValue (demo_platform True) ''socketPassword'' True
         (next_call (demo_platform True) fresh_world))
       = Inr (Own (Str (replicate 64 CHR ''0'')))
   \<and> fst (getSocketPassword (demo_platform True) (next_call (demo_platform True) fresh_world))
       = Inr (Own (Str (replicate 64 CHR ''0'')))
   \<and> storage_file (next_call (demo_platform True) (next_call (demo_platform True) fresh_world))
       = storage_file (next_call (demo_platform True) fresh_world)"
proof -
  have r: "random (demo_platform True) 64 (draws fresh_world) = replicate 64 CHR ''0''"
    by (simp add: demo_platform_def fresh_world_def hex_digits_def)
  note t = socket_password_idempotent [of "demo_platform True" fresh_world
      "Own (Str (replicate 64 CHR ''0''))", OF demo_cipher_roundtrip demo_random_length]
  from t r have 1: "fst (getSocketPassword (demo_platform True) fresh_world)
      = Inr (Own (Str (replicate 64 CHR ''0'')))" by simp
  with t show ?thesis by simp
qed

text \<open>
  C5, as amended. With encryption unavailable, for every JSON-representable value \<open>v\<close>
  and every key on which the dispatch returns, \<^verbatim>\<open>setStorageValue(k, v, true)\<close> returns
  normally and logs the warning; the member stored on disk is the JSON text of \<open>v\<close>, which
  parses back to \<open>v\<close>; and \<^verbatim>\<open>getStorageValue(k, true)\<close> returns \<open>v\<close>.
\<close>

theorem degraded_roundtrip:
  assumes "\<not> isEncryptionAvailable P" and "json_representable P v"
    and "dispatch_result k v = Inr ()"
  shows "fst (setStorageValue P k v True w) = Inr ()
    \<and> Log ''WARNING: Encryption is not available, storing value as is.'' ''Storage''
        \<in> set (events (snd (setStorageValue P k v True w)))
    \<and> document_of (snd (setStorageValue P k v True w)) k = JSON_stringify_value P v
    \<and> map_option (JSON_parse_value P) (JSON_stringify_value P v) = Some v
    \<and> fst (getStorageValue P k True (snd (setStorageValue P k v True w))) = Inr (Own v)"
proof -
  obtain j where j: "JSON_stringify_value P v = Some j" "JSON_parse_value P j = v"
    using assms(2) by (rule representable_text)
  have v: "v \<noteq> Undefined" using j(1) by auto
  have r: "stored_representation P v True = Inr v" using assms(1) by simp
  have "Log ''WARNING: Encryption is not available, storing value as is.'' ''Storage''
        \<in> set (events (snd (setStorageValue P k v True w)))"
    using assms(1) by (simp add: setStorageValue_eq [OF r] events_write_world write_prelude_def)
  with write_then_read [OF r assms(3) j(1), where w = w and secure' = True] j assms(1) v
  show ?thesis by (simp add: read_value_plain)
qed

theorem degraded_roundtrip_witness:
  "fst (getStorageValue (demo_platform False) ''sp_dc'' True
     (snd (setStorageValue (demo_platform False) ''sp_dc'' (Str ''cookie'') True fresh_world)))
   = Inr (Own (Str ''cookie''))
   \<and> document_of (snd (setStorageValue (demo_platform False) ''sp_dc'' (Str ''cookie'') True
        fresh_world)) ''sp_dc'' = Some (JStr ''cookie'')"
  using degraded_roundtrip [of "demo_platform False" "Str ''cookie''" "''sp_dc''" fresh_world]
  by simp

text \<open>
  C5, as stated, fails for the value \<^verbatim>\<open>undefined\<close>: the write returns normally,
  \<^verbatim>\<open>JSON.stringify\<close> leaves the member out, and the read returns \<^verbatim>\<open>null\<close>.
\<close>

theorem degraded_roundtrip_undefined:
  "fst (setStorageValue (demo_platform False) ''sp_dc'' Undefined True fresh_world) = Inr ()
   \<and> document_of
       (snd (setStorageValue (demo_platform False) ''sp_dc'' Undefined True fresh_world))
       ''sp_dc'' = None
   \<and> fst (getStorageValue (demo_platform False) ''sp_dc'' True
       (snd (setStorageValue (demo_platform False) ''sp_dc'' Undefined True fresh_world)))
     = Inr (Own Null)"
proof -
  have r: "stored_representation (demo_platform False) Undefined True = Inr Undefined" by simp
  show ?thesis
    by (simp add: setStorageValue_eq [OF r] document_of_write_world written_document_key
        getStorageValue_eq js_get_parse read_value_def)
qed

text \<open>
  C6. A key that the document lacks does not always read as \<^verbatim>\<open>null\<close>: on a store without
  a file, \<^verbatim>\<open>getStorageValue('constructor')\<close> returns the inherited function \<^verbatim>\<open>Object\<close>, and
  with \<^verbatim>\<open>secure = true\<close> and encryption available it throws a TypeError in \<^verbatim>\<open>Buffer.from\<close>.
\<close>

theorem inherited_key_is_not_null:
  "fst (getStorageValue (demo_platform True) ''constructor'' False fresh_world)
     = Inr (Inherited (Object_function ''constructor''))
   \<and> fst (getStorageValue (demo_platform True) ''constructor'' True fresh_world)
     = Inl TypeError"
  by (simp add: getStorageValue_eq js_get_parse read_value_def Buffer_from_hex_def)

text \<open>
  C7. When the text of the file is not JSON, \<^verbatim>\<open>getStorage\<close> returns the empty document
  and does not raise; but \<^verbatim>\<open>getStorageValue('constructor')\<close> returns the inherited function
  \<^verbatim>\<open>Object\<close>, and with \<^verbatim>\<open>secure = true\<close> and encryption available it throws a TypeError.
\<close>

theorem malformed_file_inherited_key:
  "fst (getStorage (demo_platform True) (fresh_world\<lparr>storage_file := Some Malformed\<rparr>))
     = Inr Map.empty
   \<and> fst (getStorageValue (demo_platform True) ''constructor'' False
       (fresh_world\<lparr>storage_file := Some Malformed\<rparr>))
     = Inr (Inherited (Object_function ''constructor''))
   \<and> fst (getStorageValue (demo_platform True) ''constructor'' True
       (fresh_world\<lparr>storage_file := Some Malformed\<rparr>))
     = Inl TypeError"
  by (simp add: getStorage_eq getStorageValue_eq js_get_def read_value_def Buffer_from_hex_def
      JSON_parse_def)

text \<open>
  C8, as amended. When \<^verbatim>\<open>setStorageValue(k, v, secure)\<close> reaches the write, the document
  that it writes is \<^verbatim>\<open>JSON.stringify\<close> of the document parsed from disk after the one
  assignment to \<open>k\<close>. For every other key \<open>k'\<close>, the member afterwards is the JSON text of
  the value parsed from the member before: a key without a member stays without one, and
  a member that is the JSON text of the value it parses to is unchanged.
\<close>

theorem write_rewrites_other_members:
  assumes "stored_representation P v secure = Inr rep" and "k' \<noteq> k"
  shows "storage_file (snd (setStorageValue P k v secure w))
      = Some (Document (JSON_stringify P (js_set (JSON_parse P (document_of w)) k rep)))
    \<and> document_of (snd (setStorageValue P k v secure w)) k'
      = Option.bind (document_of w k') (\<lambda>j. JSON_stringify_value P (JSON_parse_value P j))
    \<and> (document_of w k' = None \<longrightarrow>
         document_of (snd (setStorageValue P k v secure w)) k' = None)
    \<and> (document_of w k' = Some j \<and> JSON_stringify_value P (JSON_parse_value P j) = Some j \<longrightarrow>
         document_of (snd (setStorageValue P k v secure w)) k' = Some j)"
  using assms(2)
  by (auto simp: setStorageValue_eq [OF assms(1)] storage_file_write_world
      document_of_write_world written_document_other)
    (simp add: written_document_def)

theorem write_rewrites_other_members_witness:
  "document_of (snd (setStorageValue (demo_platform True) ''timeFormat'' (Str ''HH:mm'') False
      (fresh_world\<lparr>storage_file := Some (Document [''dateFormat'' \<mapsto> JStr ''ddd, D MMM''])\<rparr>)))
     ''dateFormat'' = Some (JStr ''ddd, D MMM'')"
  using write_rewrites_other_members [of "demo_platform True" "Str ''HH:mm''" False
      "Str ''HH:mm''" "''dateFormat''" "''timeFormat''"
      "fresh_world\<lparr>storage_file := Some (Document [''dateFormat'' \<mapsto> JStr ''ddd, D MMM''])\<rparr>"
      "JStr ''ddd, D MMM''"]
  by simp

text \<open>
  C8, as stated, fails for a member that is not the JSON text of the value it parses
  to: a write to \<^verbatim>\<open>timeFormat\<close> rewrites the number token \<^verbatim>\<open>9007199254740993\<close> under another
  key as \<^verbatim>\<open>9007199254740992\<close>.
\<close>

theorem write_rewrites_number_token:
  "document_of (fresh_world\<lparr>storage_file := Some (Document [''volume'' \<mapsto> JNum ''9007199254740993''])\<rparr>)
     ''volume'' = Some (JNum ''9007199254740993'')
   \<and> document_of (snd (setStorageValue (demo_platform True) ''timeFormat'' (Str ''HH:mm'') False
      (fresh_world\<lparr>storage_file := Some (Document [''volume'' \<mapsto> JNum ''9007199254740993''])\<rparr>)))
     ''volume'' = Some (JNum ''9007199254740992'')"
  by (simp add: setStorageValue_eq [OF stored_plain] document_of_write_world
      written_document_other demo_numbers is_finite_def)




text \<open>
  C10. On the key \<^verbatim>\<open>__proto__\<close>, \<^verbatim>\<open>setStorageValue('__proto__', null)\<close> stores no member and
  throws a TypeError at the dispatch, and \<^verbatim>\<open>getStorageValue('__proto__')\<close> returns
  \<^verbatim>\<open>Object.prototype\<close>, not \<^verbatim>\<open>null\<close>.
\<close>

theorem null_write_proto_throws:
  "fst (setStorageValue (demo_platform True) ''__proto__'' Null False fresh_world)
     = Inl TypeError
   \<and> document_of
       (snd (setStorageValue (demo_platform True) ''__proto__'' Null False fresh_world))
       ''__proto__'' = None
   \<and> fst (getStorageValue (demo_platform True) ''__proto__'' False
       (snd (setStorageValue (demo_platform True) ''__proto__'' Null False fresh_world)))
     = Inr (Inherited Object_prototype)"
  by (simp add: setStorageValue_eq [OF stored_plain] dispatch_result_proto
      document_of_write_world written_document_key getStorageValue_eq js_get_parse read_value_def)

end
